theory Spec2Isabelle
  imports Main "HOL-Library.FSet" "HOL-Library.Monad_Syntax"
begin

section \<open>ConnectHub: the client screens and the RSVP core\<close>

text \<open>
  The development follows the TypeScript screens of the ConnectHub client. A screen's
  \<open>useState\<close> variables are the fields of a record, an event handler is a function from the
  state (and the answer of the HTTP call it awaits) to the list of effects it performs and
  the state it leaves. A rejected axios promise is the \<open>Inl\<close> branch of a sum.

  JavaScript strings are modelled as \<open>string\<close>; a \<open>char\<close> stands for a code unit in the
  Latin-1 range. \<open>T | null\<close> and optional fields are \<open>'a option\<close>.
\<close>

subsection \<open>JavaScript string helpers\<close>

text \<open>
  \<open>String.prototype.trim\<close> removes white space and line terminators from both ends. In the
  Latin-1 range these are TAB, LF, VT, FF, CR, SPACE and NBSP.
\<close>

definition isWhiteSpace :: "char \<Rightarrow> bool" where
  "isWhiteSpace c = (of_char c \<in> {9, 10, 11, 12, 13, 32, 160 :: nat})"

definition trim :: "string \<Rightarrow> string" where
  "trim s = rev (dropWhile isWhiteSpace (rev (dropWhile isWhiteSpace s)))"

text \<open>\<open>s || d\<close> on strings: the empty string is falsy.\<close>

definition orElse :: "string \<Rightarrow> string \<Rightarrow> string" where
  "orElse s d = (if s = [] then d else s)"

text \<open>\<open>s || null\<close>.\<close>

definition orNull :: "string \<Rightarrow> string option" where
  "orNull s = (if s = [] then None else Some s)"

subsection \<open>JavaScript numbers\<close>

text \<open>
  A JavaScript number is an IEEE double. The numbers of this program are integers, so a
  number is modelled by the integer it denotes, and \<open>toDouble\<close> gives the double nearest
  to an integer: the integer itself while it fits into the 53 bits of the significand,
  otherwise the nearest multiple of the spacing \<open>2 ^ e\<close> at its magnitude, a tie going to
  the even significand. Reading a JSON number and every arithmetic operation round this
  way. (Magnitudes of \<open>2 ^ 1024\<close> and more, which are \<open>Infinity\<close>, are not modelled.)
\<close>

fun bitLength :: "nat \<Rightarrow> nat" where
  "bitLength n = (if n = 0 then 0 else Suc (bitLength (n div 2)))"

declare bitLength.simps [simp del]

definition toDouble :: "int \<Rightarrow> int" where
  "toDouble x =
     (let n = nat \<bar>x\<bar>;
          e = bitLength n - 53;
          q = n div 2 ^ e;
          r = n mod 2 ^ e;
          q' = (if 2 ^ e < 2 * r \<or> (2 * r = 2 ^ e \<and> odd q) then q + 1 else q)
      in sgn x * int (q' * 2 ^ e))"

subsection \<open>HTTP answers and effects\<close>

text \<open>
  A rejected request carries \<open>error.response?.data?.detail\<close>, which may be absent.
\<close>

datatype api_error = ApiError (detail: "string option")

type_synonym 'a api_result = "api_error + 'a"

text \<open>\<open>error.response?.data?.detail || fallback\<close>\<close>

definition detailOr :: "api_error \<Rightarrow> string \<Rightarrow> string" where
  "detailOr err fallback = (case detail err of None \<Rightarrow> fallback | Some d \<Rightarrow> orElse d fallback)"

datatype callback = LoadData | LoadMessages | LoadMembers | ScrollToEnd

text \<open>
  What a handler does to the outside: requests through \<open>api\<close> (the body type is a
  parameter), alerts, navigation, timers and console output.
\<close>

datatype 'b effect =
    HttpGet string
  | HttpPost string 'b
  | HttpPut string
  | Alert string string
  | AlertThen string string "'b effect"
  | ConsoleError string
  | RouterPush string
  | RouterReplace string
  | RouterBack
  | Invoke callback
  | SetInterval callback nat
  | ClearInterval
  | SetTimeout callback nat

fun isRequest :: "'b effect \<Rightarrow> bool" where
  "isRequest (HttpGet p) = True"
| "isRequest (HttpPost p b) = True"
| "isRequest (HttpPut p) = True"
| "isRequest e = False"

subsection \<open>The current user (AuthContext)\<close>

record user =
  user_id :: string
  email :: string
  name :: string
  role :: string
  phone :: "string option"
  position :: "string option"
  avatar :: "string option"

text \<open>
  \<open>useAuth().user\<close> is \<open>User | null\<close>; \<open>user?.role\<close> is \<open>map_option role\<close>, and
  \<open>=== 'admin'\<close> compares it with the string.
\<close>

definition canCreateEvent :: "user option \<Rightarrow> bool" where
  "canCreateEvent usr =
     (map_option role usr = Some ''admin'' \<or> map_option role usr = Some ''trainer'')"

definition canCreateGroup :: "user option \<Rightarrow> bool" where
  "canCreateGroup usr =
     (map_option role usr = Some ''admin'' \<or> map_option role usr = Some ''trainer'')"

text \<open>
  The header of the two list screens: the add button is rendered only under the
  predicate, and pressing it pushes the route of the create screen.
\<close>

definition eventsAddButton :: "user option \<Rightarrow> string option" where
  "eventsAddButton usr = (if canCreateEvent usr then Some ''/event/create'' else None)"

definition groupsAddButton :: "user option \<Rightarrow> string option" where
  "groupsAddButton usr = (if canCreateGroup usr then Some ''/group/create'' else None)"

subsection \<open>Events as the client receives them\<close>

text \<open>
  The \<open>Event\<close> interface of the detail screen; the list screen declares the same fields
  without \<open>created_by\<close>. \<open>attendees\<close> and \<open>declined\<close> are declared as arrays but read
  through \<open>?.\<close>, so a missing array is \<open>None\<close>. \<open>max_participants\<close> is an optional
  number: the field holds the integer of the JSON answer, which the client reads as the
  nearest double.
\<close>

record event =
  ev_id :: string
  event_title :: string
  event_description :: "string option"
  event_date :: string
  event_time :: "string option"
  event_location :: "string option"
  attendees :: "string list option"
  declined :: "string list option"
  max_participants :: "int option"
  created_by :: string

text \<open>\<open>user?.id || ''\<close>\<close>

definition currentUserId :: "user option \<Rightarrow> string" where
  "currentUserId usr = (case usr of None \<Rightarrow> [] | Some u \<Rightarrow> orElse (user_id u) [])"

text \<open>\<open>xs?.includes(x)\<close> used as a condition: \<open>undefined\<close> is falsy.\<close>

definition includes_js :: "string list option \<Rightarrow> string \<Rightarrow> bool" where
  "includes_js xs x = (case xs of None \<Rightarrow> False | Some ys \<Rightarrow> x \<in> set ys)"

definition getAttendanceStatus :: "user option \<Rightarrow> event \<Rightarrow> string" where
  "getAttendanceStatus usr ev =
     (if includes_js (attendees ev) (currentUserId usr) then ''attending''
      else if includes_js (declined ev) (currentUserId usr) then ''declined''
      else ''pending'')"

text \<open>\<open>item.attendees?.length || 0\<close>\<close>

definition attendeeCount :: "event \<Rightarrow> nat" where
  "attendeeCount ev = (case attendees ev of None \<Rightarrow> 0 | Some xs \<Rightarrow> length xs)"

text \<open>
  \<open>spotsLeft\<close> of the list screen (\<open>renderEvent\<close>). The condition is the truthiness of
  \<open>max_participants\<close>: \<open>undefined\<close>, \<open>null\<close> and \<open>0\<close> take the \<open>null\<close> branch. The
  subtraction is one on doubles; the length of an array is below \<open>2 ^ 32\<close> and exact.
\<close>

definition spotsLeft :: "event \<Rightarrow> int option" where
  "spotsLeft ev =
     (case max_participants ev of
        None \<Rightarrow> None
      | Some m \<Rightarrow>
          if toDouble m = 0 then None
          else Some (toDouble (toDouble m - int (attendeeCount ev))))"

text \<open>The same expression in the detail screen (\<open>EventDetail\<close>).\<close>

definition spotsLeft_detail :: "event \<Rightarrow> int option" where
  "spotsLeft_detail ev =
     (case max_participants ev of
        None \<Rightarrow> None
      | Some m \<Rightarrow>
          if toDouble m = 0 then None
          else Some (toDouble (toDouble m - int (attendeeCount ev))))"

subsection \<open>Notifications screen\<close>

record notification =
  notification_id :: string
  notification_type :: string
  message :: string
  read :: bool
  created_at :: string
  group_id :: "string option"
  event_id :: "string option"

text \<open>
  \<open>markAsRead\<close> awaits the PUT inside \<open>try\<close>; when it rejects, \<open>setNotifications\<close> is
  skipped and the list stays as it was.
\<close>

definition markAsRead :: "unit api_result \<Rightarrow> string \<Rightarrow> notification list \<Rightarrow> notification list" where
  "markAsRead resp i notifications =
     (case resp of
        Inl err \<Rightarrow> notifications
      | Inr ok \<Rightarrow> map (\<lambda>n. if notification_id n = i then n\<lparr>read := True\<rparr> else n) notifications)"

definition markAsRead_effects :: "unit api_result \<Rightarrow> string \<Rightarrow> unit effect list" where
  "markAsRead_effects resp i =
     HttpPut (''/api/notifications/'' @ i @ ''/read'') #
     (case resp of Inl err \<Rightarrow> [ConsoleError ''Error marking as read:''] | Inr ok \<Rightarrow> [])"

definition markAllAsRead :: "unit api_result \<Rightarrow> notification list \<Rightarrow> notification list" where
  "markAllAsRead resp notifications =
     (case resp of
        Inl err \<Rightarrow> notifications
      | Inr ok \<Rightarrow> map (\<lambda>n. n\<lparr>read := True\<rparr>) notifications)"

definition markAllAsRead_effects :: "unit api_result \<Rightarrow> unit effect list" where
  "markAllAsRead_effects resp =
     HttpPut ''/api/notifications/read-all'' #
     (case resp of Inl err \<Rightarrow> [ConsoleError ''Error marking all as read:''] | Inr ok \<Rightarrow> [])"

definition unreadCount :: "notification list \<Rightarrow> nat" where
  "unreadCount notifications = length (filter (\<lambda>n. \<not> read n) notifications)"

subsection \<open>Group chat screen\<close>

record chat_message =
  msg_id :: string
  content :: string
  sender_id :: string
  sender_name :: string
  msg_created_at :: string

record chat_group =
  grp_id :: string
  grp_name :: string
  grp_description :: "string option"
  grp_type :: string
  members :: "string list"

text \<open>The \<open>useState\<close> variables of \<open>GroupChat\<close>.\<close>

record chat_state =
  group :: "chat_group option"
  messages :: "chat_message list"
  newMessage :: string
  chat_loading :: bool
  sending :: bool

text \<open>The JSON body of the message-create request, \<open>{ content }\<close>.\<close>

datatype message_body = MessageBody string

definition messagesPath :: "string \<Rightarrow> string" where
  "messagesPath gid = ''/api/groups/'' @ gid @ ''/messages''"

text \<open>
  The effect hook of the screen: on mount it calls \<open>loadData\<close> and registers
  \<open>setInterval(loadMessages, 5000)\<close>; its cleanup clears the interval.
\<close>

record 'b effect_hook =
  on_mount :: "'b effect list"
  on_cleanup :: "'b effect list"

definition groupChat_useEffect :: "message_body effect_hook" where
  "groupChat_useEffect =
     \<lparr>on_mount = [Invoke LoadData, SetInterval LoadMessages 5000],
      on_cleanup = [ClearInterval]\<rparr>"

text \<open>
  \<open>loadData\<close> awaits both GET requests together; if either rejects, the \<open>catch\<close> branch
  runs and neither state variable is set. \<open>finally\<close> clears \<open>loading\<close>.
\<close>

definition loadData ::
  "string \<Rightarrow> chat_group api_result \<Rightarrow> chat_message list api_result \<Rightarrow> chat_state
     \<Rightarrow> message_body effect list \<times> chat_state" where
  "loadData gid groupRes messagesRes st =
     (case (groupRes, messagesRes) of
        (Inr g, Inr ms) \<Rightarrow>
          ([HttpGet (''/api/groups/'' @ gid), HttpGet (messagesPath gid)],
           st\<lparr>group := Some g, messages := ms, chat_loading := False\<rparr>)
      | _ \<Rightarrow>
          ([HttpGet (''/api/groups/'' @ gid), HttpGet (messagesPath gid),
            ConsoleError ''Error loading group:'',
            Alert ''Fehler'' ''Gruppe konnte nicht geladen werden''],
           st\<lparr>chat_loading := False\<rparr>))"

definition loadMessages ::
  "string \<Rightarrow> chat_message list api_result \<Rightarrow> chat_state
     \<Rightarrow> message_body effect list \<times> chat_state" where
  "loadMessages gid response st =
     (case response of
        Inr ms \<Rightarrow> ([HttpGet (messagesPath gid)], st\<lparr>messages := ms\<rparr>)
      | Inl err \<Rightarrow>
          ([HttpGet (messagesPath gid), ConsoleError ''Error loading messages:''], st))"

text \<open>
  \<open>sendMessage\<close>: an empty trimmed draft returns at once. Otherwise the request is
  posted with the trimmed draft; on success the answer is appended and the draft
  cleared, on failure an alert is shown. \<open>sending\<close> is set before the request and
  cleared in \<open>finally\<close>.
\<close>

definition sendMessage ::
  "string \<Rightarrow> chat_message api_result \<Rightarrow> chat_state
     \<Rightarrow> message_body effect list \<times> chat_state" where
  "sendMessage gid response st =
     (if trim (newMessage st) = [] then ([], st)
      else
        (case response of
           Inr m \<Rightarrow>
             ([HttpPost (messagesPath gid) (MessageBody (trim (newMessage st))),
               SetTimeout ScrollToEnd 100],
              st\<lparr>messages := messages st @ [m], newMessage := [], sending := False\<rparr>)
         | Inl err \<Rightarrow>
             ([HttpPost (messagesPath gid) (MessageBody (trim (newMessage st))),
               Alert ''Fehler'' (detailOr err ''Nachricht konnte nicht gesendet werden'')],
              st\<lparr>sending := False\<rparr>)))"

text \<open>
  The props of the chat \<open>TextInput\<close>. React Native never hands more than \<open>maxLength\<close>
  characters to \<open>onChangeText\<close>; the model cuts the text at the limit.
\<close>

record text_input_props =
  maxLength :: "nat option"
  multiline :: bool

definition chatInput :: text_input_props where
  "chatInput = \<lparr>maxLength = Some 1000, multiline = True\<rparr>"

definition textInput_deliver :: "text_input_props \<Rightarrow> string \<Rightarrow> string" where
  "textInput_deliver props typed =
     (case maxLength props of None \<Rightarrow> typed | Some n \<Rightarrow> take n typed)"

text \<open>\<open>disabled={!newMessage.trim() || sending}\<close> of the send button.\<close>

definition sendButton_disabled :: "chat_state \<Rightarrow> bool" where
  "sendButton_disabled st = (trim (newMessage st) = [] \<or> sending st)"

text \<open>
  Everything that can happen on the screen: the effect hook, the interval firing, the
  text input, the three buttons and the list's \<open>onContentSizeChange\<close>. Requests are
  answered by the values the events carry.
\<close>

datatype chat_event =
    Mounted "chat_group api_result" "chat_message list api_result"
  | IntervalFired "chat_message list api_result"
  | TextChanged string
  | SendPressed "chat_message api_result"
  | BackPressed
  | InfoPressed
  | ContentSizeChanged
  | Unmounted

fun chat_step :: "string \<Rightarrow> chat_event \<Rightarrow> chat_state \<Rightarrow> message_body effect list \<times> chat_state" where
  "chat_step gid (Mounted groupRes messagesRes) st =
     (let (effs, st') = loadData gid groupRes messagesRes st
      in (effs @ [SetInterval LoadMessages 5000], st'))"
| "chat_step gid (IntervalFired response) st = loadMessages gid response st"
| "chat_step gid (TextChanged typed) st = ([], st\<lparr>newMessage := textInput_deliver chatInput typed\<rparr>)"
| "chat_step gid (SendPressed response) st =
     (if sendButton_disabled st then ([], st) else sendMessage gid response st)"
| "chat_step gid BackPressed st = ([RouterBack], st)"
| "chat_step gid InfoPressed st = ([RouterPush (''/group/'' @ gid @ ''/info'')], st)"
| "chat_step gid ContentSizeChanged st = ([Invoke ScrollToEnd], st)"
| "chat_step gid Unmounted st = (on_cleanup groupChat_useEffect, st)"

fun chat_run :: "string \<Rightarrow> chat_event list \<Rightarrow> chat_state \<Rightarrow> message_body effect list \<times> chat_state" where
  "chat_run gid [] st = ([], st)"
| "chat_run gid (ev # evs) st =
     (let (effs, st') = chat_step gid ev st; (effs', st'') = chat_run gid evs st'
      in (effs @ effs', st''))"

text \<open>The state the component starts in.\<close>

definition chat_init :: chat_state where
  "chat_init = \<lparr>group = None, messages = [], newMessage = [], chat_loading = True, sending = False\<rparr>"

subsection \<open>Create-event screen\<close>

text \<open>
  \<open>/^\d{4}-\d{2}-\d{2}$/\<close>: \<open>\d\<close> is an ASCII digit, and without the \<open>m\<close> flag \<open>^\<close> and \<open>$\<close>
  are the two ends of the whole string.
\<close>

definition isDigit :: "char \<Rightarrow> bool" where
  "isDigit c = (48 \<le> (of_char c :: nat) \<and> (of_char c :: nat) \<le> 57)"

fun matchDigits :: "nat \<Rightarrow> string \<Rightarrow> string option" where
  "matchDigits 0 s = Some s"
| "matchDigits (Suc n) [] = None"
| "matchDigits (Suc n) (c # s) = (if isDigit c then matchDigits n s else None)"

fun matchChar :: "char \<Rightarrow> string \<Rightarrow> string option" where
  "matchChar x [] = None"
| "matchChar x (c # s) = (if c = x then Some s else None)"

definition dateRegex_test :: "string \<Rightarrow> bool" where
  "dateRegex_test s =
     (matchDigits 4 s \<bind> matchChar CHR ''-'' \<bind> matchDigits 2 \<bind> matchChar CHR ''-''
        \<bind> matchDigits 2 = Some [])"

text \<open>The \<open>useState\<close> variables of \<open>CreateEvent\<close>; every input is a string.\<close>

record create_event_form =
  title :: string
  description :: string
  date :: string
  time :: string
  location :: string
  maxParticipants :: string
  loading :: bool

text \<open>
  The JSON body of \<open>POST /api/events\<close>. \<open>max_participants\<close> is what \<open>parseInt\<close> returns;
  \<open>parseInt\<close> is a parameter of the model.
\<close>

record 'n event_body =
  body_title :: string
  body_description :: "string option"
  body_date :: string
  body_time :: "string option"
  body_location :: "string option"
  body_max_participants :: "'n option"

definition handleCreate ::
  "(string \<Rightarrow> 'n) \<Rightarrow> string api_result \<Rightarrow> create_event_form
     \<Rightarrow> 'n event_body effect list \<times> create_event_form" where
  "handleCreate parseInt response f =
     (if trim (title f) = [] then
        ([Alert ''Fehler'' ''Bitte gib einen Titel ein''], f)
      else if trim (date f) = [] then
        ([Alert ''Fehler'' ''Bitte gib ein Datum ein (Format: JJJJ-MM-TT)''], f)
      else if \<not> dateRegex_test (date f) then
        ([Alert ''Fehler''
            (''Ung'' @ [CHR 0xFC] @ ''ltiges Datumsformat. Bitte verwende JJJJ-MM-TT'')], f)
      else
        (let body = \<lparr>body_title = trim (title f),
                      body_description = orNull (trim (description f)),
                      body_date = trim (date f),
                      body_time = orNull (trim (time f)),
                      body_location = orNull (trim (location f)),
                      body_max_participants =
                        (if maxParticipants f = [] then None
                         else Some (parseInt (maxParticipants f)))\<rparr>
         in case response of
              Inr new_id \<Rightarrow>
                ([HttpPost ''/api/events'' body,
                  AlertThen ''Erfolg'' ''Termin erstellt'' (RouterReplace (''/event/'' @ new_id))],
                 f\<lparr>loading := False\<rparr>)
            | Inl err \<Rightarrow>
                ([HttpPost ''/api/events'' body,
                  Alert ''Fehler'' (detailOr err ''Termin konnte nicht erstellt werden'')],
                 f\<lparr>loading := False\<rparr>)))"

subsection \<open>Member management screen\<close>

text \<open>\<open>role.charAt(0).toUpperCase() + role.slice(1)\<close>, for ASCII letters.\<close>

definition toUpperCase_char :: "char \<Rightarrow> char" where
  "toUpperCase_char c =
     (case map_of (zip ''abcdefghijklmnopqrstuvwxyz'' ''ABCDEFGHIJKLMNOPQRSTUVWXYZ'') c of
        None \<Rightarrow> c | Some C \<Rightarrow> C)"

definition capitalize :: "string \<Rightarrow> string" where
  "capitalize s = (case s of [] \<Rightarrow> [] | c # cs \<Rightarrow> toUpperCase_char c # cs)"

text \<open>
  The dialog \<open>changeRole\<close> opens: one button per role, each closing over the member and
  the role it requests, and a cancel button.
\<close>

datatype dialog_button = RoleButton string string string | CancelButton string

record role_dialog =
  dialog_title :: string
  dialog_message :: string
  buttons :: "dialog_button list"

definition roles :: "string list" where
  "roles = [''admin'', ''trainer'', ''mitglied'', ''gast'']"

definition changeRole :: "user \<Rightarrow> role_dialog" where
  "changeRole member =
     \<lparr>dialog_title = ''Rolle '' @ [CHR 0xE4] @ ''ndern'',
      dialog_message = ''Aktuelle Rolle: '' @ role member,
      buttons = map (\<lambda>r. RoleButton (capitalize r) (user_id member) r) roles
                @ [CancelButton ''Abbrechen'']\<rparr>"

text \<open>
  Pressing a dialog button: a role button issues the PUT for its member and role, then
  reloads the list or shows the error; the cancel button does nothing.
\<close>

fun buttonPress :: "dialog_button \<Rightarrow> unit api_result \<Rightarrow> unit effect list" where
  "buttonPress (RoleButton lbl member_id r) response =
     HttpPut (''/api/users/'' @ member_id @ ''/role?role='' @ r) #
     (case response of
        Inr ok \<Rightarrow> [Invoke LoadMembers]
      | Inl err \<Rightarrow>
          [Alert ''Fehler''
             (detailOr err (''Rolle konnte nicht ge'' @ [CHR 0xE4] @ ''ndert werden''))])"
| "buttonPress (CancelButton lbl) response = []"

text \<open>
  \<open>renderMember\<close>: \<open>isCurrentUser\<close> compares the member's id with \<open>user?.id\<close>. The card's
  \<open>onPress\<close> is \<open>!isCurrentUser && changeRole(item)\<close> and the card is \<open>disabled\<close> for the
  current user.
\<close>

record member_card =
  disabled :: bool
  onPress :: "role_dialog option"
  shows_you :: bool

definition renderMember :: "user option \<Rightarrow> user \<Rightarrow> member_card" where
  "renderMember usr item =
     (let isCurrentUser = (Some (user_id item) = map_option user_id usr)
      in \<lparr>disabled = isCurrentUser,
          onPress = (if \<not> isCurrentUser then Some (changeRole item) else None),
          shows_you = isCurrentUser\<rparr>)"

text \<open>A tap on a card: a disabled \<open>TouchableOpacity\<close> does not call \<open>onPress\<close>.\<close>

definition pressMember :: "user option \<Rightarrow> user \<Rightarrow> role_dialog option" where
  "pressMember usr item =
     (if disabled (renderMember usr item) then None else onPress (renderMember usr item))"

subsection \<open>Authorization policy\<close>

text \<open>
  Modelled from the spec: the four roles of the User entity, the actions section 4.1
  names, and the part of the resource a rule looks at. The policy is server code and
  not among the sources.
\<close>

datatype actor_role = Admin | Trainer | Mitglied | Gast

datatype action =
    CreateGroup | CreateEvent | ChangeRole | ManageGroupMembers | ManageDocuments
  | AttendEvent | DeclineEvent | SendMessage | OtherAction string

record resource_context =
  actor_id :: string
  target_user_id :: "string option"
  target_group_members :: "string fset option"

text \<open>
  Modelled from the spec: \<open>canPerform(actorRole, action, resourceContext)\<close> of section 4.1,
  which belongs to the server and is missing from the sources. Rules in the order of
  the role matrix; any other action is denied.
\<close>

fun canPerform :: "actor_role \<Rightarrow> action \<Rightarrow> resource_context \<Rightarrow> bool" where
  "canPerform r CreateGroup ctx = (r = Admin \<or> r = Trainer)"
| "canPerform r CreateEvent ctx = (r = Admin \<or> r = Trainer)"
| "canPerform r ChangeRole ctx = (r = Admin)"
| "canPerform r ManageGroupMembers ctx = (r = Admin \<or> r = Trainer)"
| "canPerform r ManageDocuments ctx = (r = Admin \<or> r = Trainer)"
| "canPerform r AttendEvent ctx = True"
| "canPerform r DeclineEvent ctx = True"
| "canPerform r SendMessage ctx =
     (case target_group_members ctx of None \<Rightarrow> False | Some ms \<Rightarrow> actor_id ctx |\<in>| ms)"
| "canPerform r (OtherAction a) ctx = False"

subsection \<open>The RSVP core\<close>

text \<open>
  The server that owns \<open>attendees\<close> and \<open>declined\<close> is not among the sources; the client only
  posts to \<open>/api/events/{id}/attend\<close> and \<open>/decline\<close> and shows what comes back. The
  operations below follow the specification's section 4.2 and its error taxonomy.
\<close>

text \<open>Modelled from the spec: the error taxonomy of section 7.\<close>

datatype core_error = Unauthenticated | Forbidden | NotFound | Conflict | Capacity | Validation

text \<open>
  Modelled from the spec: the Event entity of the data model, with \<open>attendees\<close> and
  \<open>declined\<close> as finite sets of user ids and an optional \<open>maxParticipants\<close>.
\<close>

record core_event =
  core_event_id :: string
  core_maxParticipants :: "nat option"
  core_attendees :: "string fset"
  core_declined :: "string fset"

text \<open>
  Modelled from the spec: "\<open>maxParticipants\<close> set and current attendee count \<open>\<ge>\<close> limit".
\<close>

definition atCapacity :: "core_event \<Rightarrow> bool" where
  "atCapacity e =
     (case core_maxParticipants e of None \<Rightarrow> False | Some limit \<Rightarrow> limit \<le> fcard (core_attendees e))"

text \<open>
  Modelled from the spec: \<open>attend(eventId, userId)\<close> of the Events service, which is missing
  from the sources. "If \<open>maxParticipants\<close> set and current attendee count \<open>\<ge>\<close> limit and
  userId not already attending, fails with \<open>Capacity\<close>; otherwise moves userId into
  \<open>attendees\<close>, removes from \<open>declined\<close> if present."
\<close>

definition attend :: "core_event \<Rightarrow> string \<Rightarrow> core_error + core_event" where
  "attend e userId =
     (if atCapacity e \<and> userId |\<notin>| core_attendees e then Inl Capacity
      else Inr (e\<lparr>core_attendees := finsert userId (core_attendees e),
                  core_declined := core_declined e |-| {|userId|}\<rparr>))"

text \<open>
  Modelled from the spec: \<open>decline\<close>, "the mirror operation" of \<open>attend\<close>, missing from the
  sources: it moves userId into \<open>declined\<close> and removes it from \<open>attendees\<close>. No limit
  applies to \<open>declined\<close>.
\<close>

definition decline :: "core_event \<Rightarrow> string \<Rightarrow> core_error + core_event" where
  "decline e userId =
     Inr (e\<lparr>core_declined := finsert userId (core_declined e),
             core_attendees := core_attendees e |-| {|userId|}\<rparr>)"

text \<open>
  A sequence of calls on one event. A call that fails leaves the stored event as it
  was, a call that succeeds stores its result.
\<close>

datatype rsvp_call = Attend string | Decline string

fun rsvp_apply :: "core_event \<Rightarrow> rsvp_call \<Rightarrow> core_error + core_event" where
  "rsvp_apply e (Attend u) = attend e u"
| "rsvp_apply e (Decline u) = decline e u"

definition rsvp_step :: "core_event \<Rightarrow> rsvp_call \<Rightarrow> core_event" where
  "rsvp_step e c = (case rsvp_apply e c of Inl err \<Rightarrow> e | Inr e' \<Rightarrow> e')"

fun rsvp_run :: "core_event \<Rightarrow> rsvp_call list \<Rightarrow> core_event" where
  "rsvp_run e [] = e"
| "rsvp_run e (c # cs) = rsvp_run (rsvp_step e c) cs"

text \<open>\<open>attend\<close> for each user of a list in turn, all of them succeeding.\<close>

fun attend_all :: "core_event \<Rightarrow> string list \<Rightarrow> core_error + core_event" where
  "attend_all e [] = Inr e"
| "attend_all e (u # us) =
     (case attend e u of Inl err \<Rightarrow> Inl err | Inr e' \<Rightarrow> attend_all e' us)"

definition rsvp_inv :: "core_event \<Rightarrow> bool" where
  "rsvp_inv e = (core_attendees e |\<inter>| core_declined e = {||})"

subsection \<open>Sample data\<close>

abbreviation sampleTrainer :: user where
  "sampleTrainer \<equiv> \<lparr>user_id = ''u1'', email = ''t@verein.de'', name = ''Tina'',
     role = ''trainer'', phone = None, position = None, avatar = None\<rparr>"

abbreviation sampleGuest :: user where
  "sampleGuest \<equiv> \<lparr>user_id = ''u2'', email = ''g@verein.de'', name = ''Gero'',
     role = ''gast'', phone = None, position = None, avatar = None\<rparr>"

abbreviation sampleEvent :: event where
  "sampleEvent \<equiv> \<lparr>ev_id = ''e1'', event_title = ''Training'', event_description = None,
     event_date = ''2025-07-15'', event_time = Some ''18:00'', event_location = None,
     attendees = Some [''u1'', ''u3'', ''u4''], declined = Some [''u2''],
     max_participants = Some 2, created_by = ''u1''\<rparr>"

abbreviation zeroLimitEvent :: event where
  "zeroLimitEvent \<equiv> \<lparr>ev_id = ''e2'', event_title = ''Sitzung'', event_description = None,
     event_date = ''2025-08-01'', event_time = None, event_location = None,
     attendees = Some [''u1''], declined = Some [], max_participants = Some 0,
     created_by = ''u1''\<rparr>"

abbreviation hugeLimitEvent :: event where
  "hugeLimitEvent \<equiv> \<lparr>ev_id = ''e3'', event_title = ''Fest'', event_description = None,
     event_date = ''2025-09-01'', event_time = None, event_location = None,
     attendees = Some [''u1''], declined = Some [],
     max_participants = Some 9007199254740994, created_by = ''u1''\<rparr>"

abbreviation note1 :: notification where
  "note1 \<equiv> \<lparr>notification_id = ''n1'', notification_type = ''new_message'',
     message = ''Neue Nachricht'', read = False, created_at = ''2025-07-01T10:00:00'',
     group_id = Some ''g1'', event_id = None\<rparr>"

abbreviation note2 :: notification where
  "note2 \<equiv> \<lparr>notification_id = ''n2'', notification_type = ''new_event'',
     message = ''Neuer Termin'', read = False, created_at = ''2025-07-02T09:30:00'',
     group_id = None, event_id = Some ''e1''\<rparr>"

abbreviation sampleCoreEvent :: core_event where
  "sampleCoreEvent \<equiv> \<lparr>core_event_id = ''e1'', core_maxParticipants = Some 2,
     core_attendees = {||}, core_declined = {|''a''|}\<rparr>"

abbreviation fullCoreEvent :: core_event where
  "fullCoreEvent \<equiv> \<lparr>core_event_id = ''e1'', core_maxParticipants = Some 2,
     core_attendees = {|''b'', ''a''|}, core_declined = {||}\<rparr>"

abbreviation sampleAdmin :: user where
  "sampleAdmin \<equiv> \<lparr>user_id = ''u0'', email = ''a@verein.de'', name = ''Anna'',
     role = ''admin'', phone = None, position = None, avatar = None\<rparr>"

abbreviation sampleMessage :: chat_message where
  "sampleMessage \<equiv> \<lparr>msg_id = ''m1'', content = ''Hallo'', sender_id = ''u1'',
     sender_name = ''Tina'', msg_created_at = ''2025-07-01T10:00:00''\<rparr>"

abbreviation blankDraft :: chat_state where
  "blankDraft \<equiv> \<lparr>group = None, messages = [], newMessage = ''   '', chat_loading = False,
     sending = False\<rparr>"

abbreviation helloDraft :: chat_state where
  "helloDraft \<equiv> \<lparr>group = None, messages = [], newMessage = '' Hallo  '', chat_loading = False,
     sending = False\<rparr>"

abbreviation blankTitleForm :: create_event_form where
  "blankTitleForm \<equiv> \<lparr>title = ''  '', description = [], date = ''2025-07-15'', time = [],
     location = [], maxParticipants = [], loading = False\<rparr>"

abbreviation badDateForm :: create_event_form where
  "badDateForm \<equiv> \<lparr>title = ''Training'', description = [], date = ''15.07.2025'', time = [],
     location = [], maxParticipants = [], loading = False\<rparr>"

abbreviation goodForm :: create_event_form where
  "goodForm \<equiv> \<lparr>title = '' Training'', description = [], date = ''2025-07-15'',
     time = ''18:00'', location = [], maxParticipants = ''20'', loading = False\<rparr>"

abbreviation goodBody :: "int event_body" where
  "goodBody \<equiv> \<lparr>body_title = ''Training'', body_description = None,
     body_date = ''2025-07-15'', body_time = Some ''18:00'', body_location = None,
     body_max_participants = Some 20\<rparr>"

section \<open>Properties\<close>

subsection \<open>Helper facts\<close>

lemma dropWhile_all_iff: "(\<forall>x \<in> set (dropWhile P s). P x) \<longleftrightarrow> (\<forall>c \<in> set s. P c)"
  by (induction s) auto

lemma trim_empty_iff: "trim s = [] \<longleftrightarrow> (\<forall>c \<in> set s. isWhiteSpace c)"
  by (simp add: trim_def dropWhile_eq_Nil_conv dropWhile_all_iff)

lemma length_trim_le: "length (trim s) \<le> length s"
proof -
  have "length (trim s) \<le> length (rev (dropWhile isWhiteSpace s))"
    using length_dropWhile_le [of isWhiteSpace "rev (dropWhile isWhiteSpace s)"]
    by (simp add: trim_def)
  also have "\<dots> \<le> length s"
    by (simp add: length_dropWhile_le)
  finally show ?thesis .
qed

lemma bitLength_le: "n < 2 ^ k \<Longrightarrow> bitLength n \<le> k"
proof (induction k arbitrary: n)
  case 0
  then show ?case by (simp add: bitLength.simps)
next
  case (Suc k)
  show ?case
  proof (cases "n = 0")
    case True
    then show ?thesis by (simp add: bitLength.simps)
  next
    case False
    from Suc.prems have "n div 2 < 2 ^ k" by simp
    then have "bitLength (n div 2) \<le> k" by (rule Suc.IH)
    with False show ?thesis by (subst bitLength.simps) simp
  qed
qed

lemma toDouble_safe: "\<bar>x\<bar> < 2 ^ 53 \<Longrightarrow> toDouble x = x"
proof -
  assume a: "\<bar>x\<bar> < 2 ^ 53"
  then have "nat \<bar>x\<bar> < 2 ^ 53" by (simp add: nat_less_iff)
  then have "bitLength (nat \<bar>x\<bar>) \<le> 53" by (rule bitLength_le)
  then have "bitLength (nat \<bar>x\<bar>) - 53 = 0" by simp
  then show ?thesis by (simp add: toDouble_def Let_def mult_sgn_abs)
qed

lemma bitLength_2_53_plus: "bitLength 9007199254740994 = 54 \<and> bitLength 9007199254740993 = 54"
  by (simp add: bitLength.simps)

lemma toDouble_above_2_53:
  "toDouble 9007199254740994 = 9007199254740994 \<and> toDouble 9007199254740993 = 9007199254740992"
  by (simp add: toDouble_def Let_def bitLength_2_53_plus)

lemma markAllAsRead_ok: "markAllAsRead (Inr ()) ns = map (\<lambda>n. n\<lparr>read := True\<rparr>) ns"
  by (simp add: markAllAsRead_def)

lemma rsvp_step_inv: "rsvp_inv e \<Longrightarrow> rsvp_inv (rsvp_step e c)"
  by (cases c) (auto simp: rsvp_inv_def rsvp_step_def attend_def decline_def)

lemma rsvp_run_inv: "rsvp_inv e \<Longrightarrow> rsvp_inv (rsvp_run e cs)"
  by (induction cs arbitrary: e) (simp_all add: rsvp_step_inv)

lemma attend_Inr_facts:
  "attend e u = Inr e' \<Longrightarrow>
     core_attendees e' = finsert u (core_attendees e) \<and> core_maxParticipants e' = core_maxParticipants e"
  by (auto simp: attend_def split: if_splits)

lemma attend_all_facts:
  "attend_all e us = Inr e' \<Longrightarrow>
     core_attendees e' = core_attendees e |\<union>| fset_of_list us \<and> core_maxParticipants e' = core_maxParticipants e"
proof (induction us arbitrary: e)
  case Nil
  then show ?case by simp
next
  case (Cons u us)
  then obtain e1 where a: "attend e u = Inr e1" and r: "attend_all e1 us = Inr e'"
    by (auto split: sum.splits)
  from Cons.IH [OF r] attend_Inr_facts [OF a] show ?case by auto
qed

lemma fcard_fset_of_list_distinct: "distinct us \<Longrightarrow> fcard (fset_of_list us) = length us"
  by (simp add: fcard.rep_eq fset_of_list.rep_eq distinct_card)

lemma attend_all_fcard:
  assumes "attend_all e us = Inr e'" "distinct us"
  shows "length us \<le> fcard (core_attendees e')"
proof -
  have "fset_of_list us |\<subseteq>| core_attendees e'"
    using attend_all_facts [OF assms(1)] by auto
  then have "fcard (fset_of_list us) \<le> fcard (core_attendees e')" by (rule fcard_mono)
  then show ?thesis using assms(2) by (simp add: fcard_fset_of_list_distinct)
qed

lemma sendMessage_blank:
  "trim (newMessage st) = [] \<Longrightarrow> sendMessage gid response st = ([], st)"
  by (simp add: sendMessage_def)

lemma sendMessage_post:
  "HttpPost p b \<in> set (fst (sendMessage gid response st)) \<Longrightarrow>
     p = messagesPath gid \<and> b = MessageBody (trim (newMessage st)) \<and> trim (newMessage st) \<noteq> []"
  by (auto simp: sendMessage_def split: if_splits sum.splits)

lemma type_then_send_bounded:
  assumes "HttpPost p (MessageBody c)
     \<in> set (fst (chat_run gid [TextChanged typed, SendPressed response] st))"
  shows "c \<noteq> [] \<and> length c \<le> 1000"
proof -
  let ?st1 = "st\<lparr>newMessage := textInput_deliver chatInput typed\<rparr>"
  from assms have "HttpPost p (MessageBody c) \<in> set (fst (sendMessage gid response ?st1))"
    by (auto simp: split_def Let_def split: if_splits)
  from sendMessage_post [OF this]
  have c: "c = trim (newMessage ?st1)" and ne: "trim (newMessage ?st1) \<noteq> []" by simp_all
  have "length c \<le> length (newMessage ?st1)" unfolding c by (rule length_trim_le)
  also have "\<dots> \<le> 1000" by (simp add: textInput_deliver_def chatInput_def)
  finally show ?thesis using c ne by simp
qed

lemma chat_step_messages_changed:
  "messages (snd (chat_step gid ev st)) \<noteq> messages st \<Longrightarrow>
     \<exists>e \<in> set (fst (chat_step gid ev st)). isRequest e"
  by (cases ev)
    (auto simp: loadData_def loadMessages_def sendMessage_def split_def
      split: sum.splits if_splits)

lemma matchDigits_Suc_iff:
  "matchDigits (Suc n) s = Some r \<longleftrightarrow> (\<exists>c t. s = c # t \<and> isDigit c \<and> matchDigits n t = Some r)"
  by (cases s) auto

lemma matchChar_iff: "matchChar x s = Some r \<longleftrightarrow> s = x # r"
  by (cases s) auto

lemma bind_eq_Some_iff: "(m \<bind> f) = Some r \<longleftrightarrow> (\<exists>t. m = Some t \<and> f t = Some r)"
  by (cases m) auto

lemma dateRegex_test_iff:
  "dateRegex_test s \<longleftrightarrow>
     (\<exists>y1 y2 y3 y4 m1 m2 d1 d2.
        s = [y1, y2, y3, y4, CHR ''-'', m1, m2, CHR ''-'', d1, d2]
        \<and> isDigit y1 \<and> isDigit y2 \<and> isDigit y3 \<and> isDigit y4
        \<and> isDigit m1 \<and> isDigit m2 \<and> isDigit d1 \<and> isDigit d2)"
  unfolding dateRegex_test_def bind_eq_Some_iff
  by (simp add: eval_nat_numeral matchDigits_Suc_iff matchChar_iff) blast

lemma isDigit_not_space: "isDigit c \<Longrightarrow> \<not> isWhiteSpace c"
  by (auto simp: isDigit_def isWhiteSpace_def)

lemma trim_id: "s \<noteq> [] \<Longrightarrow> \<not> isWhiteSpace (hd s) \<Longrightarrow> \<not> isWhiteSpace (last s) \<Longrightarrow> trim s = s"
proof -
  assume a: "s \<noteq> []" "\<not> isWhiteSpace (hd s)" "\<not> isWhiteSpace (last s)"
  then have 1: "dropWhile isWhiteSpace s = s" by (simp add: dropWhile_eq_self_iff)
  have "hd (rev s) = last s" using a by (simp add: hd_rev)
  then have 2: "dropWhile isWhiteSpace (rev s) = rev s" using a by (simp add: dropWhile_eq_self_iff)
  show ?thesis by (simp add: trim_def 1 2)
qed

lemma dateRegex_test_trim: "dateRegex_test d \<Longrightarrow> trim d = d \<and> d \<noteq> [] \<and> length d = 10"
  by (auto simp: dateRegex_test_iff intro!: trim_id dest: isDigit_not_space)

lemma handleCreate_rejects:
  "trim (title f) = [] \<or> \<not> dateRegex_test (date f) \<Longrightarrow>
     snd (handleCreate parseInt response f) = f
     \<and> (\<forall>e \<in> set (fst (handleCreate parseInt response f)). \<not> isRequest e)"
  by (auto simp: handleCreate_def)

lemma handleCreate_post:
  "HttpPost p b \<in> set (fst (handleCreate parseInt response f)) \<Longrightarrow>
     p = ''/api/events'' \<and> body_title b = trim (title f) \<and> trim (title f) \<noteq> []
     \<and> body_date b = trim (date f) \<and> dateRegex_test (date f)"
  by (auto simp: handleCreate_def Let_def split: if_splits sum.splits)

lemma changeRole_buttons:
  "b \<in> set (buttons (changeRole member)) \<longleftrightarrow>
     (\<exists>r \<in> set roles. b = RoleButton (capitalize r) (user_id member) r) \<or> b = CancelButton ''Abbrechen''"
  by (auto simp: changeRole_def)

lemma pressMember_Some:
  "pressMember usr item = Some d \<Longrightarrow>
     d = changeRole item \<and> Some (user_id item) \<noteq> map_option user_id usr"
  by (auto simp: pressMember_def renderMember_def Let_def split: if_splits)

lemmas string_eval = trim_def isWhiteSpace_def isDigit_def dateRegex_test_def orNull_def
  orElse_def eval_nat_numeral

lemma dateRegex_checks_format_only: "dateRegex_test ''2025-13-45''"
  by (simp add: string_eval)

lemmas rsvp_eval = attend_def decline_def atCapacity_def rsvp_step_def rsvp_inv_def
  fcard_finsert_if fcard_fempty

subsection \<open>C1: who may create groups and events\<close>

text \<open>
  C1. For a signed-in user the predicates \<open>canCreateGroup\<close> and \<open>canCreateEvent\<close> hold
  exactly when the role is \<open>admin\<close> or \<open>trainer\<close>; they are false for \<open>mitglied\<close> and
  \<open>gast\<close>. The add buttons of the group list and the event list, which lead to the create
  screens, are present under the same condition. Without a signed-in user both
  predicates are false.
\<close>

theorem canCreate_admin_trainer_only:
  "canCreateGroup (Some u) = (role u = ''admin'' \<or> role u = ''trainer'')
   \<and> canCreateEvent (Some u) = (role u = ''admin'' \<or> role u = ''trainer'')
   \<and> \<not> canCreateGroup (Some (u\<lparr>role := ''mitglied''\<rparr>))
   \<and> \<not> canCreateGroup (Some (u\<lparr>role := ''gast''\<rparr>))
   \<and> \<not> canCreateEvent (Some (u\<lparr>role := ''mitglied''\<rparr>))
   \<and> \<not> canCreateEvent (Some (u\<lparr>role := ''gast''\<rparr>))
   \<and> (groupsAddButton (Some u) = Some ''/group/create'')
        = (role u = ''admin'' \<or> role u = ''trainer'')
   \<and> (eventsAddButton (Some u) = Some ''/event/create'')
        = (role u = ''admin'' \<or> role u = ''trainer'')
   \<and> \<not> canCreateGroup None \<and> \<not> canCreateEvent None"
  by (simp add: canCreateGroup_def canCreateEvent_def groupsAddButton_def eventsAddButton_def)

theorem canCreate_witness:
  "canCreateGroup (Some sampleTrainer) \<and> canCreateEvent (Some sampleTrainer)
   \<and> eventsAddButton (Some sampleTrainer) = Some ''/event/create''
   \<and> \<not> canCreateGroup (Some sampleGuest) \<and> \<not> canCreateEvent (Some sampleGuest)
   \<and> groupsAddButton (Some sampleGuest) \<noteq> Some ''/group/create''"
  using canCreate_admin_trainer_only [of sampleTrainer]
    canCreate_admin_trainer_only [of sampleGuest]
  by simp

subsection \<open>C2: attendees and declined stay disjoint\<close>

text \<open>
  C2. Starting from an event whose \<open>attendees\<close> and \<open>declined\<close> are disjoint, any sequence of
  \<open>attend\<close> and \<open>decline\<close> calls leaves them disjoint. \<open>attend(E,U)\<close> followed by
  \<open>decline(E,U)\<close> leaves \<open>U\<close> in \<open>declined\<close> and not in \<open>attendees\<close>, whether or not the
  \<open>attend\<close> call succeeded. On the client, \<open>getAttendanceStatus\<close> answers \<open>attending\<close>
  whenever the user is in \<open>attendees\<close> and looks at \<open>declined\<close> only otherwise.
\<close>

theorem rsvp_mutual_exclusion:
  "(rsvp_inv e \<longrightarrow> core_attendees (rsvp_run e cs) |\<inter>| core_declined (rsvp_run e cs) = {||})
   \<and> u |\<in>| core_declined (rsvp_run e [Attend u, Decline u])
   \<and> u |\<notin>| core_attendees (rsvp_run e [Attend u, Decline u])
   \<and> (includes_js (attendees ev) (currentUserId usr) \<longrightarrow>
        getAttendanceStatus usr ev = ''attending'')
   \<and> (getAttendanceStatus usr ev = ''declined'') =
        (\<not> includes_js (attendees ev) (currentUserId usr)
         \<and> includes_js (declined ev) (currentUserId usr))"
proof (intro conjI impI)
  assume "rsvp_inv e"
  then have "rsvp_inv (rsvp_run e cs)" by (rule rsvp_run_inv)
  then show "core_attendees (rsvp_run e cs) |\<inter>| core_declined (rsvp_run e cs) = {||}"
    by (simp add: rsvp_inv_def)
next
  show "u |\<in>| core_declined (rsvp_run e [Attend u, Decline u])"
    by (simp add: rsvp_step_def decline_def)
  show "u |\<notin>| core_attendees (rsvp_run e [Attend u, Decline u])"
    by (simp add: rsvp_step_def decline_def)
qed (simp_all add: getAttendanceStatus_def)

theorem rsvp_mutual_exclusion_witness:
  "rsvp_inv fullCoreEvent
   \<and> core_attendees (rsvp_run fullCoreEvent [Attend ''c'', Decline ''a'', Attend ''c''])
       |\<inter>| core_declined (rsvp_run fullCoreEvent [Attend ''c'', Decline ''a'', Attend ''c''])
       = {||}
   \<and> ''a'' |\<in>| core_declined (rsvp_run fullCoreEvent [Attend ''a'', Decline ''a''])
   \<and> includes_js (attendees sampleEvent) (currentUserId (Some sampleTrainer))
   \<and> getAttendanceStatus (Some sampleTrainer) sampleEvent = ''attending''"
proof -
  have h1: "rsvp_inv fullCoreEvent"
    by (simp add: rsvp_inv_def)
  have h2: "includes_js (attendees sampleEvent) (currentUserId (Some sampleTrainer))"
    by (simp add: includes_js_def currentUserId_def orElse_def)
  from h1 h2
    rsvp_mutual_exclusion [of fullCoreEvent "[Attend ''c'', Decline ''a'', Attend ''c'']"
      "''a''" sampleEvent "Some sampleTrainer"]
  show ?thesis by blast
qed

subsection \<open>C3: the participant limit\<close>

text \<open>
  C3. For an event with \<open>maxParticipants = k\<close>, after \<open>k\<close> successful \<open>attend\<close> calls by
  distinct users an \<open>attend\<close> call by a user who is not in \<open>attendees\<close> fails with
  \<open>Capacity\<close> and the stored event is unchanged. An \<open>attend\<close> call by a user who is already
  in \<open>attendees\<close> succeeds, leaves \<open>attendees\<close> and its size as they were, and changes
  nothing at all when the user is not in \<open>declined\<close>.
\<close>

theorem attend_capacity:
  "(core_maxParticipants e = Some k \<and> distinct us \<and> length us = k \<and> attend_all e us = Inr e'
      \<and> u |\<notin>| core_attendees e' \<longrightarrow>
        attend e' u = Inl Capacity \<and> rsvp_step e' (Attend u) = e')
   \<and> (v |\<in>| core_attendees e \<longrightarrow>
        attend e v = Inr (e\<lparr>core_declined := core_declined e |-| {|v|}\<rparr>)
        \<and> core_attendees (rsvp_step e (Attend v)) = core_attendees e
        \<and> fcard (core_attendees (rsvp_step e (Attend v))) = fcard (core_attendees e))
   \<and> (v |\<in>| core_attendees e \<and> v |\<notin>| core_declined e \<longrightarrow> attend e v = Inr e)"
proof (intro conjI impI)
  assume h: "core_maxParticipants e = Some k \<and> distinct us \<and> length us = k
      \<and> attend_all e us = Inr e' \<and> u |\<notin>| core_attendees e'"
  then have "k \<le> fcard (core_attendees e')" using attend_all_fcard by blast
  moreover have "core_maxParticipants e' = Some k" using h attend_all_facts by metis
  ultimately have cap: "atCapacity e'" by (simp add: atCapacity_def)
  with h show "attend e' u = Inl Capacity" by (simp add: attend_def)
  then show "rsvp_step e' (Attend u) = e'" by (simp add: rsvp_step_def)
next
  assume h: "v |\<in>| core_attendees e"
  then show a: "attend e v = Inr (e\<lparr>core_declined := core_declined e |-| {|v|}\<rparr>)"
    by (simp add: attend_def finsert_absorb)
  then show "core_attendees (rsvp_step e (Attend v)) = core_attendees e" by (simp add: rsvp_step_def)
  then show "fcard (core_attendees (rsvp_step e (Attend v))) = fcard (core_attendees e)" by simp
next
  assume h: "v |\<in>| core_attendees e \<and> v |\<notin>| core_declined e"
  then show "attend e v = Inr e" by (simp add: attend_def finsert_absorb)
qed

theorem attend_capacity_witness:
  "core_maxParticipants sampleCoreEvent = Some 2 \<and> distinct [''a'', ''b'']
   \<and> length [''a'', ''b''] = 2 \<and> attend_all sampleCoreEvent [''a'', ''b''] = Inr fullCoreEvent
   \<and> ''c'' |\<notin>| core_attendees fullCoreEvent
   \<and> attend fullCoreEvent ''c'' = Inl Capacity
   \<and> rsvp_step fullCoreEvent (Attend ''c'') = fullCoreEvent
   \<and> ''a'' |\<in>| core_attendees fullCoreEvent \<and> ''a'' |\<notin>| core_declined fullCoreEvent
   \<and> attend fullCoreEvent ''a'' = Inr fullCoreEvent"
proof -
  have h1: "core_maxParticipants sampleCoreEvent = Some 2 \<and> distinct [''a'', ''b'']
      \<and> length [''a'', ''b''] = 2 \<and> attend_all sampleCoreEvent [''a'', ''b''] = Inr fullCoreEvent
      \<and> ''c'' |\<notin>| core_attendees fullCoreEvent"
    by (simp add: rsvp_eval)
  have h2: "''a'' |\<in>| core_attendees fullCoreEvent \<and> ''a'' |\<notin>| core_declined fullCoreEvent"
    by simp
  from h1 h2
    attend_capacity [of sampleCoreEvent 2 "[''a'', ''b'']" fullCoreEvent "''c''"]
    attend_capacity [of fullCoreEvent _ _ _ _ "''a''"]
  show ?thesis by blast
qed

subsection \<open>C4: no role change for the own account from the member list\<close>

text \<open>
  C4. In the member list the card of the signed-in user is rendered disabled and its
  press handler opens no role dialog, so tapping it issues no request. Every role-change
  request that can be issued from the list (tap a card, choose a role in the dialog)
  goes to \<open>/api/users/{id}/role\<close> of a member whose id differs from the signed-in
  user's. The restriction sits in \<open>renderMember\<close> only: \<open>changeRole\<close> itself builds the
  role buttons for whatever member it is given, and the policy \<open>canPerform\<close> decides
  \<open>changeRole\<close> on the actor's role alone, so it allows an admin to target the own
  account.
\<close>

theorem renderMember_no_self_change:
  "(user_id item = user_id u \<longrightarrow>
      disabled (renderMember (Some u) item) \<and> onPress (renderMember (Some u) item) = None
      \<and> pressMember (Some u) item = None)
   \<and> (pressMember (Some u) item = Some d \<and> b \<in> set (buttons d)
        \<and> HttpPut p \<in> set (buttonPress b response) \<longrightarrow>
      user_id item \<noteq> user_id u
      \<and> (\<exists>r \<in> set roles. p = ''/api/users/'' @ user_id item @ ''/role?role='' @ r))
   \<and> (user_id item \<noteq> user_id u \<longrightarrow> pressMember (Some u) item = Some (changeRole item))
   \<and> (\<forall>r \<in> set roles. RoleButton (capitalize r) (user_id u) r \<in> set (buttons (changeRole u)))
   \<and> canPerform r ChangeRole ctx = (r = Admin)
   \<and> canPerform Admin ChangeRole (ctx\<lparr>target_user_id := Some (actor_id ctx)\<rparr>)"
proof -
  have 1: "user_id item = user_id u \<longrightarrow>
      disabled (renderMember (Some u) item) \<and> onPress (renderMember (Some u) item) = None
      \<and> pressMember (Some u) item = None"
    by (simp add: renderMember_def pressMember_def)
  have 2: "pressMember (Some u) item = Some d \<and> b \<in> set (buttons d)
        \<and> HttpPut p \<in> set (buttonPress b response) \<longrightarrow>
      user_id item \<noteq> user_id u
      \<and> (\<exists>r \<in> set roles. p = ''/api/users/'' @ user_id item @ ''/role?role='' @ r)"
  proof
    assume h: "pressMember (Some u) item = Some d \<and> b \<in> set (buttons d)
        \<and> HttpPut p \<in> set (buttonPress b response)"
    then have d: "d = changeRole item" and ne: "user_id item \<noteq> user_id u"
      using pressMember_Some [of "Some u" item d] by auto
    from h d have "(\<exists>r \<in> set roles. b = RoleButton (capitalize r) (user_id item) r)
        \<or> b = CancelButton ''Abbrechen''"
      by (simp add: changeRole_buttons)
    with h have "\<exists>r \<in> set roles. p = ''/api/users/'' @ user_id item @ ''/role?role='' @ r"
      by (auto split: sum.splits)
    with ne show "user_id item \<noteq> user_id u
      \<and> (\<exists>r \<in> set roles. p = ''/api/users/'' @ user_id item @ ''/role?role='' @ r)" by simp
  qed
  have 3: "user_id item \<noteq> user_id u \<longrightarrow> pressMember (Some u) item = Some (changeRole item)"
    by (simp add: renderMember_def pressMember_def)
  have 4: "\<forall>r \<in> set roles. RoleButton (capitalize r) (user_id u) r \<in> set (buttons (changeRole u))"
    by (simp add: changeRole_def)
  have 5: "canPerform r ChangeRole ctx = (r = Admin)" by simp
  have 6: "canPerform Admin ChangeRole (ctx\<lparr>target_user_id := Some (actor_id ctx)\<rparr>)" by simp
  from 1 2 3 4 5 6 show ?thesis by blast
qed

theorem renderMember_no_self_change_witness:
  "user_id sampleAdmin = user_id sampleAdmin
   \<and> disabled (renderMember (Some sampleAdmin) sampleAdmin)
   \<and> pressMember (Some sampleAdmin) sampleAdmin = None
   \<and> pressMember (Some sampleAdmin) sampleGuest = Some (changeRole sampleGuest)
   \<and> RoleButton ''Trainer'' ''u2'' ''trainer'' \<in> set (buttons (changeRole sampleGuest))
   \<and> HttpPut ''/api/users/u2/role?role=trainer''
        \<in> set (buttonPress (RoleButton ''Trainer'' ''u2'' ''trainer'') (Inr ()))
   \<and> user_id sampleGuest \<noteq> user_id sampleAdmin"
proof -
  have a: "user_id sampleAdmin = user_id sampleAdmin" by simp
  have b: "pressMember (Some sampleAdmin) sampleGuest = Some (changeRole sampleGuest)
     \<and> RoleButton ''Trainer'' ''u2'' ''trainer'' \<in> set (buttons (changeRole sampleGuest))
     \<and> HttpPut ''/api/users/u2/role?role=trainer''
        \<in> set (buttonPress (RoleButton ''Trainer'' ''u2'' ''trainer'') (Inr ()))"
    by (simp add: pressMember_def renderMember_def changeRole_def roles_def capitalize_def
        toUpperCase_char_def)
  from a b
    renderMember_no_self_change [of sampleAdmin sampleAdmin]
    renderMember_no_self_change [of sampleGuest sampleAdmin "changeRole sampleGuest"
      "RoleButton ''Trainer'' ''u2'' ''trainer''" "''/api/users/u2/role?role=trainer''" "Inr ()"]
  show ?thesis by blast
qed

subsection \<open>C5: sending a chat message\<close>

text \<open>
  C5. \<open>sendMessage\<close> does nothing (no request, same state) when the draft is empty or
  consists of white space only. Every message-create request it issues goes to the
  messages route of the group and carries the trimmed draft, which is not empty. The
  chat input has \<open>maxLength = 1000\<close>: the draft it stores never exceeds 1000 characters,
  and so neither does the content of a request sent after typing.
\<close>

theorem sendMessage_nonempty_and_bounded:
  "((\<forall>c \<in> set (newMessage st). isWhiteSpace c) \<longrightarrow> sendMessage gid response st = ([], st))
   \<and> (HttpPost p b \<in> set (fst (sendMessage gid response st)) \<longrightarrow>
        p = ''/api/groups/'' @ gid @ ''/messages''
        \<and> b = MessageBody (trim (newMessage st))
        \<and> trim (newMessage st) \<noteq> [])
   \<and> maxLength chatInput = Some 1000
   \<and> length (newMessage (snd (chat_step gid (TextChanged typed) st))) \<le> 1000
   \<and> (HttpPost p' (MessageBody c')
         \<in> set (fst (chat_run gid [TextChanged typed, SendPressed response] st)) \<longrightarrow>
        c' \<noteq> [] \<and> length c' \<le> 1000)"
proof -
  have 1: "(\<forall>c \<in> set (newMessage st). isWhiteSpace c) \<longrightarrow> sendMessage gid response st = ([], st)"
    by (simp add: trim_empty_iff [symmetric] sendMessage_blank)
  have 2: "HttpPost p b \<in> set (fst (sendMessage gid response st)) \<longrightarrow>
        p = ''/api/groups/'' @ gid @ ''/messages''
        \<and> b = MessageBody (trim (newMessage st))
        \<and> trim (newMessage st) \<noteq> []"
    using sendMessage_post [of p b gid response st] by (simp add: messagesPath_def)
  have 3: "maxLength chatInput = Some 1000" by (simp add: chatInput_def)
  have 4: "length (newMessage (snd (chat_step gid (TextChanged typed) st))) \<le> 1000"
    by (simp add: textInput_deliver_def chatInput_def)
  have 5: "HttpPost p' (MessageBody c')
         \<in> set (fst (chat_run gid [TextChanged typed, SendPressed response] st)) \<longrightarrow>
        c' \<noteq> [] \<and> length c' \<le> 1000"
    using type_then_send_bounded by blast
  from 1 2 3 4 5 show ?thesis by blast
qed

theorem sendMessage_witness:
  "list_all isWhiteSpace (newMessage blankDraft)
   \<and> sendMessage ''g1'' (Inr sampleMessage) blankDraft = ([], blankDraft)
   \<and> HttpPost ''/api/groups/g1/messages'' (MessageBody ''Hallo'')
        \<in> set (fst (sendMessage ''g1'' (Inr sampleMessage) helloDraft))
   \<and> trim (newMessage helloDraft) = ''Hallo''
   \<and> HttpPost ''/api/groups/g1/messages'' (MessageBody ''Hallo'')
        \<in> set (fst (chat_run ''g1'' [TextChanged '' Hallo  '', SendPressed (Inr sampleMessage)]
               blankDraft))
   \<and> length ''Hallo'' \<le> 1000"
proof -
  have a: "\<forall>c \<in> set (newMessage blankDraft). isWhiteSpace c"
    by (simp add: isWhiteSpace_def)
  have t: "trim '' Hallo  '' = ''Hallo''" by (simp add: string_eval)
  have b: "HttpPost ''/api/groups/g1/messages'' (MessageBody ''Hallo'')
        \<in> set (fst (sendMessage ''g1'' (Inr sampleMessage) helloDraft))"
    by (simp add: sendMessage_def messagesPath_def t)
  have c: "HttpPost ''/api/groups/g1/messages'' (MessageBody ''Hallo'')
        \<in> set (fst (chat_run ''g1'' [TextChanged '' Hallo  '', SendPressed (Inr sampleMessage)]
               blankDraft))"
    by (simp add: sendMessage_def messagesPath_def textInput_deliver_def chatInput_def
        sendButton_disabled_def t)
  have d: "trim (newMessage helloDraft) = ''Hallo''" by (simp add: t)
  have e: "list_all isWhiteSpace (newMessage blankDraft)" by (simp add: isWhiteSpace_def)
  from a b c d e
    sendMessage_nonempty_and_bounded [of blankDraft "''g1''" "Inr sampleMessage"]
    sendMessage_nonempty_and_bounded [of helloDraft "''g1''" "Inr sampleMessage"
      "''/api/groups/g1/messages''" "MessageBody ''Hallo''"]
    sendMessage_nonempty_and_bounded [of blankDraft "''g1''" "Inr sampleMessage" _ _
      "'' Hallo  ''" "''/api/groups/g1/messages''" "''Hallo''"]
  show ?thesis by blast
qed

subsection \<open>C6: marking every notification as read\<close>

text \<open>
  C6. When the read-all request succeeds, \<open>markAllAsRead\<close> sets \<open>read\<close> on every
  notification of the list and changes nothing else: the new list is the old one with
  \<open>read = true\<close> in every entry. After it \<open>unreadCount\<close> is 0. Applying it twice gives the
  same list as applying it once, whatever the answer of the request.
\<close>

theorem markAllAsRead_clears_unread:
  "markAllAsRead (Inr ()) ns = map (\<lambda>n. n\<lparr>read := True\<rparr>) ns
   \<and> map read (markAllAsRead (Inr ()) ns) = replicate (length ns) True
   \<and> unreadCount (markAllAsRead (Inr ()) ns) = 0
   \<and> markAllAsRead (Inr ()) (markAllAsRead (Inr ()) ns) = markAllAsRead (Inr ()) ns
   \<and> markAllAsRead resp (markAllAsRead resp ns) = markAllAsRead resp ns"
proof (intro conjI)
  show "markAllAsRead (Inr ()) ns = map (\<lambda>n. n\<lparr>read := True\<rparr>) ns"
    by (rule markAllAsRead_ok)
  show "map read (markAllAsRead (Inr ()) ns) = replicate (length ns) True"
    by (induction ns) (simp_all add: markAllAsRead_ok)
  show "unreadCount (markAllAsRead (Inr ()) ns) = 0"
    by (simp add: unreadCount_def markAllAsRead_ok filter_empty_conv)
  show "markAllAsRead (Inr ()) (markAllAsRead (Inr ()) ns) = markAllAsRead (Inr ()) ns"
    by (simp add: markAllAsRead_ok)
  show "markAllAsRead resp (markAllAsRead resp ns) = markAllAsRead resp ns"
    by (cases resp) (simp_all add: markAllAsRead_def)
qed

theorem markAllAsRead_witness:
  "unreadCount [note1, note2] = 2
   \<and> markAllAsRead (Inr ()) [note1, note2] = [note1\<lparr>read := True\<rparr>, note2\<lparr>read := True\<rparr>]
   \<and> map read (markAllAsRead (Inr ()) [note1, note2]) = [True, True]
   \<and> unreadCount (markAllAsRead (Inr ()) [note1, note2]) = 0"
proof -
  have a: "unreadCount [note1, note2] = 2" by (simp add: unreadCount_def)
  note r = markAllAsRead_clears_unread [of "[note1, note2]" "Inr ()"]
  from r [THEN conjunct1]
  have b: "markAllAsRead (Inr ()) [note1, note2]
      = [note1\<lparr>read := True\<rparr>, note2\<lparr>read := True\<rparr>]"
    by simp
  from r [THEN conjunct2, THEN conjunct1]
  have c: "map read (markAllAsRead (Inr ()) [note1, note2]) = [True, True]"
    by simp
  from r [THEN conjunct2, THEN conjunct2, THEN conjunct1]
  have d: "unreadCount (markAllAsRead (Inr ()) [note1, note2]) = 0" .
  from a b c d show ?thesis by blast
qed

subsection \<open>C7: polling the message list\<close>

text \<open>
  C7. The effect hook of the chat screen registers one interval timer that calls
  \<open>loadMessages\<close> every 5000 ms, and clears it on cleanup; no other handler registers a
  timer. Each firing issues exactly one request, a GET of the group's message list, and
  on success replaces the local list by the answer, whatever the list was before; on
  failure the list is kept. There is no push channel: whenever a handler of the screen
  changes the local message list, it has issued a request itself.
\<close>

theorem chat_polling:
  "on_mount groupChat_useEffect = [Invoke LoadData, SetInterval LoadMessages 5000]
   \<and> on_cleanup groupChat_useEffect = [ClearInterval]
   \<and> SetInterval LoadMessages 5000 \<in> set (fst (chat_step gid (Mounted gr mr) st))
   \<and> (SetInterval cb ms \<in> set (fst (chat_step gid ev st)) \<longrightarrow>
        cb = LoadMessages \<and> ms = 5000 \<and> (\<exists>gr mr. ev = Mounted gr mr))
   \<and> chat_step gid (IntervalFired (Inr new)) st
        = ([HttpGet (''/api/groups/'' @ gid @ ''/messages'')], st\<lparr>messages := new\<rparr>)
   \<and> messages (snd (chat_step gid (IntervalFired (Inr new)) st)) = new
   \<and> filter isRequest (fst (chat_step gid (IntervalFired response) st))
        = [HttpGet (''/api/groups/'' @ gid @ ''/messages'')]
   \<and> chat_step gid (IntervalFired (Inl err)) st
        = ([HttpGet (''/api/groups/'' @ gid @ ''/messages''),
            ConsoleError ''Error loading messages:''], st)
   \<and> (messages (snd (chat_step gid ev st)) \<noteq> messages st \<longrightarrow>
        (\<exists>e \<in> set (fst (chat_step gid ev st)). isRequest e))"
proof (intro conjI impI)
  assume "SetInterval cb ms \<in> set (fst (chat_step gid ev st))"
  then show "cb = LoadMessages" and "ms = 5000" and "\<exists>gr mr. ev = Mounted gr mr"
    by (cases ev;
        auto simp: loadData_def loadMessages_def sendMessage_def split_def groupChat_useEffect_def
          split: sum.splits if_splits)+
next
  show "filter isRequest (fst (chat_step gid (IntervalFired response) st))
        = [HttpGet (''/api/groups/'' @ gid @ ''/messages'')]"
    by (cases response) (simp_all add: loadMessages_def messagesPath_def)
next
  assume "messages (snd (chat_step gid ev st)) \<noteq> messages st"
  then show "\<exists>e \<in> set (fst (chat_step gid ev st)). isRequest e"
    by (rule chat_step_messages_changed)
qed (simp_all add: groupChat_useEffect_def loadMessages_def messagesPath_def loadData_def
      split_def split: sum.splits)

theorem chat_polling_witness:
  "SetInterval LoadMessages 5000
     \<in> set (fst (chat_step ''g1'' (Mounted (Inl (ApiError None)) (Inr [])) chat_init))
   \<and> messages (snd (chat_step ''g1'' (IntervalFired (Inr [sampleMessage])) chat_init))
        \<noteq> messages chat_init
   \<and> messages (snd (chat_step ''g1'' (IntervalFired (Inr [sampleMessage])) chat_init))
        = [sampleMessage]
   \<and> (\<exists>e \<in> set (fst (chat_step ''g1'' (IntervalFired (Inr [sampleMessage])) chat_init)).
        isRequest e)"
proof -
  have a: "messages (snd (chat_step ''g1'' (IntervalFired (Inr [sampleMessage])) chat_init))
        \<noteq> messages chat_init"
    by (simp add: loadMessages_def chat_init_def)
  from a
    chat_polling [of "''g1''" "Inl (ApiError None)" "Inr []" chat_init LoadMessages 5000
      "IntervalFired (Inr [sampleMessage])" "[sampleMessage]"]
  show ?thesis by blast
qed

subsection \<open>C8: validation before an event is created\<close>

text \<open>
  C8. If the trimmed title is empty or the date does not match
  \<open>^\d{4}-\d{2}-\d{2}$\<close>, \<open>handleCreate\<close> issues no request and leaves the form as it
  is. Every \<open>POST /api/events\<close> it issues carries a non-empty trimmed title and the date
  as typed, which matches the pattern: four digits, a hyphen, two digits, a hyphen, two
  digits, and nothing else.
\<close>

theorem handleCreate_validates:
  "(trim (title f) = [] \<or> \<not> dateRegex_test (date f) \<longrightarrow>
      snd (handleCreate parseInt response f) = f
      \<and> (\<forall>e \<in> set (fst (handleCreate parseInt response f)). \<not> isRequest e))
   \<and> (HttpPost p b \<in> set (fst (handleCreate parseInt response f)) \<longrightarrow>
      p = ''/api/events'' \<and> body_title b = trim (title f) \<and> body_title b \<noteq> []
      \<and> body_date b = date f \<and> dateRegex_test (body_date b))
   \<and> (dateRegex_test d \<longleftrightarrow>
      (\<exists>y1 y2 y3 y4 m1 m2 d1 d2.
        d = [y1, y2, y3, y4, CHR ''-'', m1, m2, CHR ''-'', d1, d2]
        \<and> isDigit y1 \<and> isDigit y2 \<and> isDigit y3 \<and> isDigit y4
        \<and> isDigit m1 \<and> isDigit m2 \<and> isDigit d1 \<and> isDigit d2))"
proof -
  have 1: "trim (title f) = [] \<or> \<not> dateRegex_test (date f) \<longrightarrow>
      snd (handleCreate parseInt response f) = f
      \<and> (\<forall>e \<in> set (fst (handleCreate parseInt response f)). \<not> isRequest e)"
    using handleCreate_rejects by blast
  have 2: "HttpPost p b \<in> set (fst (handleCreate parseInt response f)) \<longrightarrow>
      p = ''/api/events'' \<and> body_title b = trim (title f) \<and> body_title b \<noteq> []
      \<and> body_date b = date f \<and> dateRegex_test (body_date b)"
  proof
    assume h: "HttpPost p b \<in> set (fst (handleCreate parseInt response f))"
    note k = handleCreate_post [OF h]
    then have "trim (date f) = date f" using dateRegex_test_trim by blast
    with k show "p = ''/api/events'' \<and> body_title b = trim (title f) \<and> body_title b \<noteq> []
      \<and> body_date b = date f \<and> dateRegex_test (body_date b)" by simp
  qed
  from 1 2 dateRegex_test_iff [of d] show ?thesis by blast
qed

theorem handleCreate_validates_witness:
  "trim (title blankTitleForm) = []
   \<and> snd (handleCreate (\<lambda>s. 20 :: int) (Inr ''e9'') blankTitleForm) = blankTitleForm
   \<and> \<not> dateRegex_test (date badDateForm)
   \<and> filter isRequest (fst (handleCreate (\<lambda>s. 20 :: int) (Inr ''e9'') badDateForm)) = []
   \<and> HttpPost ''/api/events'' goodBody
        \<in> set (fst (handleCreate (\<lambda>s. 20 :: int) (Inr ''e9'') goodForm))
   \<and> dateRegex_test (body_date goodBody)"
proof -
  have a: "trim (title blankTitleForm) = []" by (simp add: string_eval)
  have b: "\<not> dateRegex_test (date badDateForm)" by (simp add: string_eval)
  have c: "HttpPost ''/api/events'' goodBody
        \<in> set (fst (handleCreate (\<lambda>s. 20 :: int) (Inr ''e9'') goodForm))"
    by (simp add: handleCreate_def string_eval)
  note r1 = handleCreate_validates [of blankTitleForm "\<lambda>s. 20 :: int" "Inr ''e9''",
      THEN conjunct1]
  note r2 = handleCreate_validates [of badDateForm "\<lambda>s. 20 :: int" "Inr ''e9''",
      THEN conjunct1]
  note r3 = handleCreate_validates [of goodForm "\<lambda>s. 20 :: int" "Inr ''e9''"
      "''/api/events''" goodBody, THEN conjunct2, THEN conjunct1]
  from a r1 have 1: "snd (handleCreate (\<lambda>s. 20 :: int) (Inr ''e9'') blankTitleForm) = blankTitleForm"
    by blast
  from b r2 have 2: "filter isRequest (fst (handleCreate (\<lambda>s. 20 :: int) (Inr ''e9'') badDateForm)) = []"
    unfolding filter_empty_conv by blast
  from c r3 have 3: "dateRegex_test (body_date goodBody)" by blast
  from a b c 1 2 3 show ?thesis by blast
qed

subsection \<open>C9: marking one notification as read\<close>

text \<open>
  C9. When the request succeeds, \<open>markAsRead\<close> keeps the length and the order of the
  list, replaces each notification whose id matches by a copy with \<open>read = true\<close> and all
  other fields as before, and leaves every other notification as it was. If no
  notification has the id, the list is unchanged.
\<close>

theorem markAsRead_frame:
  "length (markAsRead (Inr ()) i ns) = length ns
   \<and> (\<forall>k < length ns.
        (notification_id (ns ! k) = i \<longrightarrow>
           markAsRead (Inr ()) i ns ! k = (ns ! k)\<lparr>read := True\<rparr>)
      \<and> (notification_id (ns ! k) \<noteq> i \<longrightarrow> markAsRead (Inr ()) i ns ! k = ns ! k)
      \<and> notification_id (markAsRead (Inr ()) i ns ! k) = notification_id (ns ! k)
      \<and> notification_type (markAsRead (Inr ()) i ns ! k) = notification_type (ns ! k)
      \<and> message (markAsRead (Inr ()) i ns ! k) = message (ns ! k)
      \<and> created_at (markAsRead (Inr ()) i ns ! k) = created_at (ns ! k)
      \<and> group_id (markAsRead (Inr ()) i ns ! k) = group_id (ns ! k)
      \<and> event_id (markAsRead (Inr ()) i ns ! k) = event_id (ns ! k))
   \<and> (i \<notin> notification_id ` set ns \<longrightarrow> markAsRead (Inr ()) i ns = ns)"
proof (intro conjI allI impI)
  show "i \<notin> notification_id ` set ns \<Longrightarrow> markAsRead (Inr ()) i ns = ns"
    by (induction ns) (auto simp: markAsRead_def)
qed (simp_all add: markAsRead_def)

theorem markAsRead_frame_witness:
  "(1::nat) < length [note1, note2] \<and> notification_id ([note1, note2] ! 1) = ''n2''
   \<and> markAsRead (Inr ()) ''n2'' [note1, note2] ! 1 = note2\<lparr>read := True\<rparr>
   \<and> notification_id ([note1, note2] ! 0) \<noteq> ''n2''
   \<and> markAsRead (Inr ()) ''n2'' [note1, note2] ! 0 = note1
   \<and> ''n7'' \<notin> notification_id ` set [note1, note2]
   \<and> markAsRead (Inr ()) ''n7'' [note1, note2] = [note1, note2]"
proof -
  have a: "(1::nat) < length [note1, note2] \<and> (0::nat) < length [note1, note2]" by simp
  have b: "''n7'' \<notin> notification_id ` set [note1, note2]" by simp
  from a b markAsRead_frame [of "''n2''" "[note1, note2]"]
    markAsRead_frame [of "''n7''" "[note1, note2]"]
  show ?thesis by simp
qed

subsection \<open>C10: free spots\<close>

text \<open>
  C10, as stated: for every event with \<open>max_participants\<close> set, the free-spots value is
  \<open>max_participants\<close> minus the number of attendees, in exact integer arithmetic. With
  \<open>max_participants = 0\<close> and one attendee this would be \<open>-1\<close>, but both screens compute
  \<open>null\<close>, because the condition of the conditional expression is the truthiness of
  the number. With \<open>max_participants = 9007199254740994\<close> (\<open>2 ^ 53 + 2\<close>) and one attendee
  it would be \<open>9007199254740993\<close>, but the subtraction on doubles gives
  \<open>9007199254740992\<close>.
\<close>

theorem spotsLeft_counterexample:
  "max_participants zeroLimitEvent = Some 0
   \<and> spotsLeft zeroLimitEvent = None
   \<and> spotsLeft_detail zeroLimitEvent = None
   \<and> spotsLeft zeroLimitEvent \<noteq> Some (0 - int (attendeeCount zeroLimitEvent))
   \<and> max_participants hugeLimitEvent = Some 9007199254740994
   \<and> attendeeCount hugeLimitEvent = 1
   \<and> spotsLeft hugeLimitEvent = Some 9007199254740992
   \<and> spotsLeft_detail hugeLimitEvent = Some 9007199254740992
   \<and> spotsLeft hugeLimitEvent \<noteq> Some (9007199254740994 - int (attendeeCount hugeLimitEvent))"
  by (simp add: spotsLeft_def spotsLeft_detail_def attendeeCount_def toDouble_safe
      toDouble_above_2_53)

text \<open>
  C10, amended: for every event whose \<open>max_participants\<close> is set, not 0 and of magnitude
  below \<open>2 ^ 53\<close>, and whose difference to the number of attendees is of magnitude below
  \<open>2 ^ 53\<close> as well, both screens compute \<open>max_participants\<close> minus the number of
  attendees, exactly and without clamping, so the value is negative whenever the
  attendees exceed the limit. For an event whose \<open>max_participants\<close> is unset or 0 no
  value is computed.
\<close>

theorem spotsLeft_exact:
  "(max_participants ev = Some m \<and> m \<noteq> 0 \<and> \<bar>m\<bar> < 2 ^ 53
      \<and> \<bar>m - int (attendeeCount ev)\<bar> < 2 ^ 53 \<longrightarrow>
      spotsLeft ev = Some (m - int (attendeeCount ev))
      \<and> spotsLeft_detail ev = Some (m - int (attendeeCount ev)))
   \<and> (max_participants ev = Some m \<and> m \<noteq> 0 \<and> \<bar>m\<bar> < 2 ^ 53
      \<and> \<bar>m - int (attendeeCount ev)\<bar> < 2 ^ 53 \<and> m < int (attendeeCount ev) \<longrightarrow>
      (\<exists>v. spotsLeft ev = Some v \<and> spotsLeft_detail ev = Some v \<and> v < 0))
   \<and> (max_participants ev = None \<or> max_participants ev = Some 0 \<longrightarrow>
      spotsLeft ev = None \<and> spotsLeft_detail ev = None)"
proof -
  have 1: "max_participants ev = Some m \<and> m \<noteq> 0 \<and> \<bar>m\<bar> < 2 ^ 53
      \<and> \<bar>m - int (attendeeCount ev)\<bar> < 2 ^ 53 \<longrightarrow>
      spotsLeft ev = Some (m - int (attendeeCount ev))
      \<and> spotsLeft_detail ev = Some (m - int (attendeeCount ev))"
    by (simp add: spotsLeft_def spotsLeft_detail_def toDouble_safe)
  have 3: "max_participants ev = None \<or> max_participants ev = Some 0 \<longrightarrow>
      spotsLeft ev = None \<and> spotsLeft_detail ev = None"
    by (auto simp: spotsLeft_def spotsLeft_detail_def toDouble_safe)
  from 1 3 show ?thesis by auto
qed

theorem spotsLeft_exact_witness:
  "max_participants sampleEvent = Some 2 \<and> (2::int) \<noteq> 0 \<and> \<bar>2::int\<bar> < 2 ^ 53
   \<and> \<bar>2 - int (attendeeCount sampleEvent)\<bar> < 2 ^ 53
   \<and> 2 < int (attendeeCount sampleEvent)
   \<and> spotsLeft sampleEvent = Some (- 1) \<and> spotsLeft_detail sampleEvent = Some (- 1)
   \<and> max_participants zeroLimitEvent = Some 0 \<and> spotsLeft_detail zeroLimitEvent = None"
proof -
  have c: "int (attendeeCount sampleEvent) = 3" by (simp add: attendeeCount_def)
  have a: "max_participants sampleEvent = Some 2 \<and> (2::int) \<noteq> 0 \<and> \<bar>2::int\<bar> < 2 ^ 53
      \<and> \<bar>2 - int (attendeeCount sampleEvent)\<bar> < 2 ^ 53
      \<and> 2 < int (attendeeCount sampleEvent)"
    by (simp add: c)
  have b: "max_participants zeroLimitEvent = Some 0" by simp
  note r1 = spotsLeft_exact [of sampleEvent 2, THEN conjunct1]
  note r3 = spotsLeft_exact [of zeroLimitEvent 0, THEN conjunct2, THEN conjunct2]
  from a r1 have 1: "spotsLeft sampleEvent = Some (2 - int (attendeeCount sampleEvent))
      \<and> spotsLeft_detail sampleEvent = Some (2 - int (attendeeCount sampleEvent))"
    by blast
  from b r3 have 2: "spotsLeft_detail zeroLimitEvent = None" by blast
  from 1 have w1: "spotsLeft sampleEvent = Some (- 1) \<and> spotsLeft_detail sampleEvent = Some (- 1)"
    by (simp add: c)
  from a b w1 2 show ?thesis by blast
qed

end
